theory Spec2Isabelle
  imports Main "HOL-Library.Word"
begin

unbundle bit_operations_syntax

section \<open>ArdusatSDK unified serial library (utility/serial.cpp)\<close>

text \<open>
  The file wraps the hardware UART (\<^verbatim>\<open>Serial\<close>) and an optional \<^verbatim>\<open>SoftwareSerial\<close>
  object behind one class, \<^verbatim>\<open>ArdusatSerial\<close>, and holds the bring-up sequences of an
  XBee radio and of a BlueSMiRF bluetooth adapter.

  The byte streams themselves and \<^verbatim>\<open>delay\<close> belong to the platform. They are modelled by
  what the program can observe of them: every call made to the platform is appended to a
  trace, and the value a query returns (\<^verbatim>\<open>available\<close>, \<^verbatim>\<open>read\<close>, \<^verbatim>\<open>peek\<close>,
  \<^verbatim>\<open>write\<close>) is given by a device, a function of the calls made so far.
\<close>

subsection \<open>Data\<close>

text \<open>The enum \<^verbatim>\<open>serialMode\<close>.\<close>

datatype serialMode =
    SERIAL_MODE_HARDWARE
  | SERIAL_MODE_SOFTWARE
  | SERIAL_MODE_HARDWARE_AND_SOFTWARE

text \<open>
  Machine types of the AVR target: \<^verbatim>\<open>unsigned long\<close> has 32 bits, \<^verbatim>\<open>unsigned char\<close> 8,
  \<^verbatim>\<open>size_t\<close> 16. The \<^verbatim>\<open>int\<close> results of the platform queries are kept as their
  mathematical value.
\<close>

type_synonym ulong = "32 word"
type_synonym uchar = "8 word"
type_synonym size_t = "16 word"

text \<open>
  A stream is the global \<^verbatim>\<open>Serial\<close> or the \<^verbatim>\<open>SoftwareSerial\<close> object at an address.
  A pointer is an address, \<open>0\<close> for \<^verbatim>\<open>NULL\<close>.
\<close>

type_synonym pointer = nat

datatype port = Serial | SoftSerial pointer

datatype event =
    EvNew pointer uchar uchar bool
  | EvDelete pointer
  | EvBegin port ulong
  | EvEnd port
  | EvFlush port
  | EvPrint port string
  | EvPrintln port string
  | EvPrintNum port nat
  | EvPrintlnNum port nat
  | EvDelay nat
  | EvAvailable port int
  | EvRead port int
  | EvPeek port int
  | EvWrite port uchar size_t

text \<open>
  The world: the calls made to the platform so far, oldest first, and the addresses of
  the \<^verbatim>\<open>SoftwareSerial\<close> objects that are allocated.
\<close>

record world =
  trace :: "event list"
  live :: "pointer list"

text \<open>What the platform answers, from the calls made before the query.\<close>

record device =
  dev_available :: "port \<Rightarrow> event list \<Rightarrow> int"
  dev_read :: "port \<Rightarrow> event list \<Rightarrow> int"
  dev_peek :: "port \<Rightarrow> event list \<Rightarrow> int"
  dev_write :: "port \<Rightarrow> uchar \<Rightarrow> event list \<Rightarrow> size_t"

text \<open>
  Using a pointer that does not hold an allocated \<^verbatim>\<open>SoftwareSerial\<close> (a call through
  it, or \<^verbatim>\<open>delete\<close>) is undefined behaviour in C++; in the model it is the error
  \<open>InvalidPointer\<close>, and the computation stops there.
\<close>

datatype fault = InvalidPointer

type_synonym 'a io = "world \<Rightarrow> fault + 'a \<times> world"

definition return_io :: "'a \<Rightarrow> 'a io" where
  "return_io x w = Inr (x, w)"

definition bind_io :: "'a io \<Rightarrow> ('a \<Rightarrow> 'b io) \<Rightarrow> 'b io" where
  "bind_io m k w = (case m w of Inl e \<Rightarrow> Inl e | Inr (x, w') \<Rightarrow> k x w')"

text \<open>A block of statements executed in order.\<close>

fun run :: "unit io list \<Rightarrow> unit io" where
  "run [] = return_io ()"
| "run (a # as) = bind_io a (\<lambda>_. run as)"

text \<open>\<^verbatim>\<open>if (c) { ... }\<close> with no else branch.\<close>

definition when_io :: "bool \<Rightarrow> unit io \<Rightarrow> unit io" where
  "when_io c m = (if c then m else return_io ())"

subsection \<open>The platform\<close>

definition add_ev :: "event \<Rightarrow> world \<Rightarrow> world" where
  "add_ev e w = w\<lparr>trace := trace w @ [e]\<rparr>"

definition port_ok :: "port \<Rightarrow> world \<Rightarrow> bool" where
  "port_ok p w = (case p of Serial \<Rightarrow> True | SoftSerial a \<Rightarrow> a \<in> set (live w))"

definition call :: "port \<Rightarrow> event \<Rightarrow> unit io" where
  "call p e w = (if port_ok p w then Inr ((), add_ev e w) else Inl InvalidPointer)"

definition query :: "port \<Rightarrow> (event list \<Rightarrow> 'a) \<Rightarrow> ('a \<Rightarrow> event) \<Rightarrow> 'a io" where
  "query p answer ev w =
     (if port_ok p w then (let a = answer (trace w) in Inr (a, add_ev (ev a) w))
      else Inl InvalidPointer)"

definition port_begin :: "port \<Rightarrow> ulong \<Rightarrow> unit io" where
  "port_begin p baud = call p (EvBegin p baud)"

definition port_end :: "port \<Rightarrow> unit io" where
  "port_end p = call p (EvEnd p)"

definition port_flush :: "port \<Rightarrow> unit io" where
  "port_flush p = call p (EvFlush p)"

definition port_print :: "port \<Rightarrow> string \<Rightarrow> unit io" where
  "port_print p s = call p (EvPrint p s)"

definition port_println :: "port \<Rightarrow> string \<Rightarrow> unit io" where
  "port_println p s = call p (EvPrintln p s)"

definition port_print_num :: "port \<Rightarrow> nat \<Rightarrow> unit io" where
  "port_print_num p n = call p (EvPrintNum p n)"

definition port_println_num :: "port \<Rightarrow> nat \<Rightarrow> unit io" where
  "port_println_num p n = call p (EvPrintlnNum p n)"

definition port_available :: "device \<Rightarrow> port \<Rightarrow> int io" where
  "port_available dev p = query p (dev_available dev p) (EvAvailable p)"

definition port_read :: "device \<Rightarrow> port \<Rightarrow> int io" where
  "port_read dev p = query p (dev_read dev p) (EvRead p)"

definition port_peek :: "device \<Rightarrow> port \<Rightarrow> int io" where
  "port_peek dev p = query p (dev_peek dev p) (EvPeek p)"

definition port_write :: "device \<Rightarrow> port \<Rightarrow> uchar \<Rightarrow> size_t io" where
  "port_write dev p b = query p (dev_write dev p b) (EvWrite p b)"

definition delay :: "nat \<Rightarrow> unit io" where
  "delay ms w = Inr ((), add_ev (EvDelay ms) w)"

text \<open>
  \<^verbatim>\<open>new SoftwareSerial(rx, tx, inverse)\<close> returns an address that is not \<^verbatim>\<open>NULL\<close> and
  not in use; \<^verbatim>\<open>delete\<close> releases an allocated object.
\<close>

definition fresh_pointer :: "pointer list \<Rightarrow> pointer" where
  "fresh_pointer ps = Suc (fold max ps 0)"

definition new_SoftwareSerial :: "uchar \<Rightarrow> uchar \<Rightarrow> bool \<Rightarrow> pointer io" where
  "new_SoftwareSerial rx tx inverse_logic w =
     (let a = fresh_pointer (live w)
      in Inr (a, add_ev (EvNew a rx tx inverse_logic) (w\<lparr>live := a # live w\<rparr>)))"

definition delete_SoftwareSerial :: "pointer \<Rightarrow> unit io" where
  "delete_SoftwareSerial a w =
     (if a \<in> set (live w)
      then Inr ((), add_ev (EvDelete a) (w\<lparr>live := removeAll a (live w)\<rparr>))
      else Inl InvalidPointer)"

subsection \<open>Constants of the file\<close>

definition xbee_cmd_mode :: string where "xbee_cmd_mode = ''+++''"
definition xbee_cmd_baud :: string where "xbee_cmd_baud = ''ATBD ''"
definition xbee_cmd_write :: string where "xbee_cmd_write = ''ATWR''"
definition xbee_cmd_close :: string where "xbee_cmd_close = ''ATCN''"
definition xbee_baud_success :: string where "xbee_baud_success = ''Set XBEE baud rate to ''"

definition bt_cmd_mode :: string where "bt_cmd_mode = ''$$$''"
definition bt_1200_baud_cmd :: string where "bt_1200_baud_cmd = ''U,1200,N''"
definition bt_2400_baud_cmd :: string where "bt_2400_baud_cmd = ''U,2400,N''"
definition bt_4800_baud_cmd :: string where "bt_4800_baud_cmd = ''U,4800,N''"
definition bt_9600_baud_cmd :: string where "bt_9600_baud_cmd = ''U,9600,N''"
definition bt_19200_baud_cmd :: string where "bt_19200_baud_cmd = ''U,192K,N''"
definition bt_38400_baud_cmd :: string where "bt_38400_baud_cmd = ''U,384K,N''"
definition bt_57600_baud_cmd :: string where "bt_57600_baud_cmd = ''U,576K,N''"
definition bt_bad_baud_err1 :: string where
  "bt_bad_baud_err1 = '' isn't a supported bluetooth baud rate.''"
definition bt_bad_baud_err2 :: string where
  "bt_bad_baud_err2 = ''Supported baud rates are:''"
definition bt_bad_baud_err3 :: string where
  "bt_bad_baud_err3 = ''1200 2400 4800 9600 19200 38400 57600''"

subsection \<open>The XBee baud negotiator\<close>

text \<open>
  The array \<^verbatim>\<open>rates\<close> of \<^verbatim>\<open>_enter_xbee_cmd_mode\<close>.
\<close>

definition rates :: "ulong list" where
  "rates = [9600, 57600, 115200, 19200, 38400]"

text \<open>
  The first loop of \<^verbatim>\<open>_enter_xbee_cmd_mode\<close>, from index \<open>i\<close> on, with the local
  variable \<^verbatim>\<open>speed\<close>. The result is \<open>(Some r, speed)\<close> when the loop leaves the function
  by \<^verbatim>\<open>return r\<close>, and \<open>(None, speed)\<close> when control goes on after the loop (by
  \<^verbatim>\<open>break\<close>, or because the loop condition is false).
\<close>

function probe_loop :: "device \<Rightarrow> pointer \<Rightarrow> nat \<Rightarrow> ulong \<Rightarrow> (int option \<times> ulong) io" where
  "probe_loop dev serial i speed =
     (if i < 5 then
        bind_io (run [port_end (SoftSerial serial),
                      port_begin (SoftSerial serial) (rates ! i),
                      port_print (SoftSerial serial) xbee_cmd_mode,
                      delay 1200]) (\<lambda>_.
        bind_io (port_available dev (SoftSerial serial)) (\<lambda>a.
          if a \<noteq> 0 then return_io (None, rates ! i)
          else if i = 4 then return_io (Some (- 1), speed)
          else probe_loop dev serial (Suc i) speed))
      else return_io (None, speed))"
  by pat_completeness auto
termination
  by (relation "measure (\<lambda>(dev, serial, i, speed). 5 - i)") auto

text \<open>
  The second loop: up to two reads into \<^verbatim>\<open>char buf[]\<close>, stopping after a read whose
  value, stored as a (signed) \<^verbatim>\<open>char\<close>, is \<open>-1\<close>.
\<close>

fun drain_loop :: "device \<Rightarrow> pointer \<Rightarrow> nat \<Rightarrow> unit io" where
  "drain_loop dev serial 0 = return_io ()"
| "drain_loop dev serial (Suc n) =
     bind_io (port_read dev (SoftSerial serial)) (\<lambda>c.
       if sint (word_of_int c :: 8 word) = - 1 then return_io ()
       else drain_loop dev serial n)"

definition enter_xbee_cmd_mode :: "device \<Rightarrow> pointer \<Rightarrow> ulong \<Rightarrow> int io" where
  "enter_xbee_cmd_mode dev serial speed =
     bind_io (run [port_end (SoftSerial serial),
                   delay 1200,
                   port_begin (SoftSerial serial) speed,
                   port_print (SoftSerial serial) xbee_cmd_mode,
                   delay 1200]) (\<lambda>_.
     bind_io (port_available dev (SoftSerial serial)) (\<lambda>a.
     bind_io (if a = 0 then probe_loop dev serial 0 speed else return_io (None, speed)) (\<lambda>(r, speed').
       case r of
         Some v \<Rightarrow> return_io v
       | None \<Rightarrow> bind_io (drain_loop dev serial 2) (\<lambda>_. return_io 0))))"

text \<open>The \<^verbatim>\<open>switch (speed)\<close> of \<^verbatim>\<open>set_xbee_baud_rate\<close>, which sets \<^verbatim>\<open>rate\<close>.\<close>

definition rate_switch :: "ulong \<Rightarrow> uchar" where
  "rate_switch speed =
     (if speed = 1200 then 0
      else if speed = 2400 then 1
      else if speed = 4800 then 2
      else if speed = 9600 then 3
      else if speed = 19200 then 4
      else if speed = 38400 then 5
      else if speed = 57600 then 6
      else if speed = 115200 then 7
      else 6)"

definition set_xbee_baud_rate :: "device \<Rightarrow> pointer \<Rightarrow> ulong \<Rightarrow> unit io" where
  "set_xbee_baud_rate dev serial speed =
     bind_io (enter_xbee_cmd_mode dev serial speed) (\<lambda>r.
       when_io (r = 0)
         (run [port_print (SoftSerial serial) xbee_cmd_baud,
               port_println_num (SoftSerial serial) (unat (rate_switch speed)),
               port_println (SoftSerial serial) xbee_cmd_write,
               delay 1200,
               port_println (SoftSerial serial) xbee_cmd_close,
               delay 1200,
               port_print Serial xbee_baud_success,
               port_println_num Serial (unat speed)]))"

subsection \<open>The class ArdusatSerial\<close>

record ArdusatSerial =
  f_mode :: serialMode
  f_soft_serial :: pointer

text \<open>
  Neither constructor assigns \<^verbatim>\<open>_soft_serial\<close> when it creates no \<^verbatim>\<open>SoftwareSerial\<close>,
  and the class declaration (serial.h) is not part of the sources at hand: the value the
  member holds when the constructor body starts is the parameter \<open>initial\<close>. It is \<open>0\<close>
  for an object of static storage duration, which is zero-initialised first.
\<close>

definition ArdusatSerial_mode :: "pointer \<Rightarrow> serialMode \<Rightarrow> ArdusatSerial io" where
  "ArdusatSerial_mode initial mode =
     return_io \<lparr>f_mode = SERIAL_MODE_HARDWARE, f_soft_serial = initial\<rparr>"

definition ArdusatSerial_pins ::
  "pointer \<Rightarrow> serialMode \<Rightarrow> uchar \<Rightarrow> uchar \<Rightarrow> bool \<Rightarrow> ArdusatSerial io" where
  "ArdusatSerial_pins initial mode softwareReceivePin softwareTransmitPin softwareInverseLogic =
     bind_io (if mode = SERIAL_MODE_SOFTWARE \<or> mode = SERIAL_MODE_HARDWARE_AND_SOFTWARE
              then new_SoftwareSerial softwareReceivePin softwareTransmitPin softwareInverseLogic
              else return_io initial) (\<lambda>p.
       return_io \<lparr>f_mode = mode, f_soft_serial = p\<rparr>)"

definition ArdusatSerial_destructor :: "ArdusatSerial \<Rightarrow> unit io" where
  "ArdusatSerial_destructor f =
     when_io (f_soft_serial f \<noteq> 0) (delete_SoftwareSerial (f_soft_serial f))"

text \<open>The macros \<^verbatim>\<open>send_to_serial\<close> and \<^verbatim>\<open>return_serial_function\<close>.\<close>

definition send_to_serial :: "ArdusatSerial \<Rightarrow> (port \<Rightarrow> unit io) \<Rightarrow> unit io" where
  "send_to_serial f fn =
     run [when_io (f_mode f = SERIAL_MODE_HARDWARE \<or> f_mode f = SERIAL_MODE_HARDWARE_AND_SOFTWARE)
            (fn Serial),
          when_io (f_soft_serial f \<noteq> 0 \<and>
                   (f_mode f = SERIAL_MODE_SOFTWARE \<or> f_mode f = SERIAL_MODE_HARDWARE_AND_SOFTWARE))
            (fn (SoftSerial (f_soft_serial f)))]"

definition return_serial_function :: "ArdusatSerial \<Rightarrow> (port \<Rightarrow> 'a io) \<Rightarrow> 'a io" where
  "return_serial_function f fxn =
     (if f_mode f = SERIAL_MODE_SOFTWARE \<or> f_mode f = SERIAL_MODE_HARDWARE_AND_SOFTWARE
      then fxn (SoftSerial (f_soft_serial f))
      else fxn Serial)"

definition begin_serial :: "device \<Rightarrow> ArdusatSerial \<Rightarrow> ulong \<Rightarrow> bool \<Rightarrow> unit io" where
  "begin_serial dev f baud setXbeeSpeed =
     run [when_io (f_mode f = SERIAL_MODE_HARDWARE \<or> f_mode f = SERIAL_MODE_HARDWARE_AND_SOFTWARE)
            (port_begin Serial baud),
          when_io (f_mode f = SERIAL_MODE_SOFTWARE \<or> f_mode f = SERIAL_MODE_HARDWARE_AND_SOFTWARE)
            (run [when_io setXbeeSpeed (set_xbee_baud_rate dev (f_soft_serial f) baud),
                  port_end (SoftSerial (f_soft_serial f)),
                  port_begin (SoftSerial (f_soft_serial f)) baud])]"

text \<open>
  The \<^verbatim>\<open>switch (baud)\<close> of \<^verbatim>\<open>beginBluetooth\<close>: \<open>Some\<close> of the string copied to
  \<^verbatim>\<open>baud_cmd\<close>, or \<open>None\<close> where the default case sets \<^verbatim>\<open>valid_baud = false\<close>.
\<close>

definition baud_switch :: "ulong \<Rightarrow> string option" where
  "baud_switch baud =
     (if baud = 1200 then Some bt_1200_baud_cmd
      else if baud = 2400 then Some bt_2400_baud_cmd
      else if baud = 4800 then Some bt_4800_baud_cmd
      else if baud = 9600 then Some bt_9600_baud_cmd
      else if baud = 19200 then Some bt_19200_baud_cmd
      else if baud = 38400 then Some bt_38400_baud_cmd
      else if baud = 57600 then Some bt_57600_baud_cmd
      else None)"

definition beginBluetooth :: "ArdusatSerial \<Rightarrow> ulong \<Rightarrow> unit io" where
  "beginBluetooth f baud =
     (case baud_switch baud of
        Some baud_cmd \<Rightarrow>
          run [when_io (f_mode f = SERIAL_MODE_HARDWARE)
                 (run [when_io (baud \<noteq> 9600)
                         (run [port_begin Serial 9600,
                               port_print Serial bt_cmd_mode,
                               delay 100,
                               port_println Serial baud_cmd]),
                       port_begin Serial baud]),
               when_io (f_mode f = SERIAL_MODE_SOFTWARE \<or>
                        f_mode f = SERIAL_MODE_HARDWARE_AND_SOFTWARE)
                 (run [when_io (baud \<noteq> 9600)
                         (run [port_end (SoftSerial (f_soft_serial f)),
                               port_begin (SoftSerial (f_soft_serial f)) 9600,
                               port_print (SoftSerial (f_soft_serial f)) bt_cmd_mode,
                               delay 100,
                               port_println (SoftSerial (f_soft_serial f)) baud_cmd]),
                       port_end (SoftSerial (f_soft_serial f)),
                       port_begin (SoftSerial (f_soft_serial f)) baud]),
               when_io (f_mode f = SERIAL_MODE_HARDWARE_AND_SOFTWARE)
                 (port_begin Serial baud)]
      | None \<Rightarrow>
          run [port_begin Serial 9600,
               port_print_num Serial (unat baud),
               port_println Serial bt_bad_baud_err1,
               port_println Serial bt_bad_baud_err2,
               port_println Serial bt_bad_baud_err3])"

definition end_serial :: "ArdusatSerial \<Rightarrow> unit io" where
  "end_serial f = send_to_serial f port_end"

definition peek :: "device \<Rightarrow> ArdusatSerial \<Rightarrow> int io" where
  "peek dev f = return_serial_function f (port_peek dev)"

definition read :: "device \<Rightarrow> ArdusatSerial \<Rightarrow> int io" where
  "read dev f = return_serial_function f (port_read dev)"

definition available :: "device \<Rightarrow> ArdusatSerial \<Rightarrow> int io" where
  "available dev f = return_serial_function f (port_available dev)"

definition flush :: "ArdusatSerial \<Rightarrow> unit io" where
  "flush f = send_to_serial f port_flush"

definition write_serial :: "device \<Rightarrow> ArdusatSerial \<Rightarrow> uchar \<Rightarrow> size_t io" where
  "write_serial dev f b =
     bind_io (if f_soft_serial f \<noteq> 0 \<and>
                 (f_mode f = SERIAL_MODE_SOFTWARE \<or> f_mode f = SERIAL_MODE_HARDWARE_AND_SOFTWARE)
              then bind_io (port_write dev (SoftSerial (f_soft_serial f)) b) (\<lambda>r. return_io (1 AND r))
              else return_io 1) (\<lambda>ret.
       if f_mode f = SERIAL_MODE_HARDWARE \<or> f_mode f = SERIAL_MODE_HARDWARE_AND_SOFTWARE
       then bind_io (port_write dev Serial b) (\<lambda>r. return_io (ret AND r))
       else return_io ret)"

subsection \<open>Use of the class\<close>

text \<open>
  A caller constructs the object with one of the two constructors, calls its member
  functions in some order, and the destructor runs at the end.
\<close>

datatype constructor_call =
    ModeOnly serialMode
  | WithPins serialMode uchar uchar bool

fun construct :: "pointer \<Rightarrow> constructor_call \<Rightarrow> ArdusatSerial io" where
  "construct initial (ModeOnly mode) = ArdusatSerial_mode initial mode"
| "construct initial (WithPins mode rx tx inverse_logic) =
     ArdusatSerial_pins initial mode rx tx inverse_logic"

datatype operation =
    OpBegin ulong bool
  | OpBeginBluetooth ulong
  | OpEnd
  | OpPeek
  | OpRead
  | OpAvailable
  | OpFlush
  | OpWrite uchar

fun perform :: "device \<Rightarrow> ArdusatSerial \<Rightarrow> operation \<Rightarrow> unit io" where
  "perform dev f (OpBegin baud setXbeeSpeed) = begin_serial dev f baud setXbeeSpeed"
| "perform dev f (OpBeginBluetooth baud) = beginBluetooth f baud"
| "perform dev f OpEnd = end_serial f"
| "perform dev f OpPeek = bind_io (peek dev f) (\<lambda>_. return_io ())"
| "perform dev f OpRead = bind_io (read dev f) (\<lambda>_. return_io ())"
| "perform dev f OpAvailable = bind_io (available dev f) (\<lambda>_. return_io ())"
| "perform dev f OpFlush = flush f"
| "perform dev f (OpWrite b) = bind_io (write_serial dev f b) (\<lambda>_. return_io ())"

definition perform_all :: "device \<Rightarrow> ArdusatSerial \<Rightarrow> operation list \<Rightarrow> unit io" where
  "perform_all dev f ops = run (map (perform dev f) ops)"

text \<open>
  The object is usable in a world when the \<^verbatim>\<open>SoftwareSerial\<close> its mode needs is
  allocated there.
\<close>

definition usable :: "ArdusatSerial \<Rightarrow> world \<Rightarrow> bool" where
  "usable f w =
     (f_mode f = SERIAL_MODE_HARDWARE \<or>
      f_soft_serial f \<noteq> 0 \<and> f_soft_serial f \<in> set (live w))"

text \<open>The events that allocate or release a \<^verbatim>\<open>SoftwareSerial\<close>.\<close>

fun is_alloc :: "event \<Rightarrow> bool" where
  "is_alloc (EvNew a rx tx inverse_logic) = True"
| "is_alloc (EvDelete a) = True"
| "is_alloc e = False"

subsection \<open>Call sequences the specification describes\<close>

text \<open>
  The RF command codes of the specification: the integer the XBee expects for each
  supported rate, and the code of 57600 for every other value.
\<close>

definition RF_Command_Codes :: "(nat \<times> nat) list" where
  "RF_Command_Codes =
     [(1200, 0), (2400, 1), (4800, 2), (9600, 3), (19200, 4), (38400, 5), (57600, 6), (115200, 7)]"

definition RF_code :: "nat \<Rightarrow> nat" where
  "RF_code speed = (case map_of RF_Command_Codes speed of Some c \<Rightarrow> c | None \<Rightarrow> 6)"

text \<open>The fallback candidates of the specification, in its reference order.\<close>

definition candidates :: "ulong list" where
  "candidates = [9600, 57600, 115200, 19200, 38400]"

text \<open>
  The probe at the requested speed: close, wait for the module to boot, reopen, write
  the escape sequence, wait. The probe of a fallback candidate: close, reopen at the
  candidate, write the escape sequence, wait. Each is followed by one check of
  \<^verbatim>\<open>available\<close>; \<open>failed_probes\<close> are candidate probes whose check found nothing.
\<close>

definition first_probe :: "pointer \<Rightarrow> ulong \<Rightarrow> event list" where
  "first_probe serial speed =
     [EvEnd (SoftSerial serial), EvDelay 1200, EvBegin (SoftSerial serial) speed,
      EvPrint (SoftSerial serial) ''+++'', EvDelay 1200]"

definition candidate_probe :: "pointer \<Rightarrow> ulong \<Rightarrow> event list" where
  "candidate_probe serial r =
     [EvEnd (SoftSerial serial), EvBegin (SoftSerial serial) r,
      EvPrint (SoftSerial serial) ''+++'', EvDelay 1200]"

definition failed_probes :: "pointer \<Rightarrow> ulong list \<Rightarrow> event list" where
  "failed_probes serial rs =
     concat (map (\<lambda>r. candidate_probe serial r @ [EvAvailable (SoftSerial serial) 0]) rs)"

text \<open>
  The calls made before the check of fallback candidate \<open>j\<close>, when the probe at the
  requested speed and the candidates before \<open>j\<close> found nothing.
\<close>

definition history :: "world \<Rightarrow> pointer \<Rightarrow> ulong \<Rightarrow> nat \<Rightarrow> event list" where
  "history w serial speed j =
     trace w @ first_probe serial speed @ [EvAvailable (SoftSerial serial) 0] @
     failed_probes serial (take j candidates) @ candidate_probe serial (candidates ! j)"

subsection \<open>Devices and worlds for concrete runs\<close>

text \<open>The rate at which a port was opened last.\<close>

fun last_begin :: "port \<Rightarrow> event list \<Rightarrow> ulong option" where
  "last_begin p [] = None"
| "last_begin p (e # es) =
     (case last_begin p es of
        Some b \<Rightarrow> Some b
      | None \<Rightarrow> (case e of EvBegin q b \<Rightarrow> if q = p then Some b else None | _ \<Rightarrow> None))"

text \<open>
  A module running at \<open>rate\<close>: it answers only while the port is open at that rate. It
  has nothing to read, and every write succeeds.
\<close>

definition xbee_at :: "ulong \<Rightarrow> device" where
  "xbee_at rate =
     \<lparr>dev_available = (\<lambda>p tr. if last_begin p tr = Some rate then 1 else 0),
      dev_read = (\<lambda>p tr. - 1),
      dev_peek = (\<lambda>p tr. - 1),
      dev_write = (\<lambda>p b tr. 1)\<rparr>"

text \<open>A module that never answers, and a software port that accepts no byte.\<close>

definition silent :: device where
  "silent =
     \<lparr>dev_available = (\<lambda>p tr. 0),
      dev_read = (\<lambda>p tr. - 1),
      dev_peek = (\<lambda>p tr. - 1),
      dev_write = (\<lambda>p b tr. case p of Serial \<Rightarrow> 1 | SoftSerial a \<Rightarrow> 0)\<rparr>"

text \<open>The world at start, and the world with one \<^verbatim>\<open>SoftwareSerial\<close> at address 1.\<close>

definition world0 :: world where
  "world0 = \<lparr>trace = [], live = []\<rparr>"

definition world1 :: world where
  "world1 = \<lparr>trace = [], live = [1]\<rparr>"

subsection \<open>Actions that leave the heap alone\<close>

text \<open>
  An action is quiet for a set of allocated addresses when, started in any world with
  these addresses, it returns, and all it does is add calls other than \<^verbatim>\<open>new\<close> and
  \<^verbatim>\<open>delete\<close> to the trace.
\<close>

definition quiet :: "pointer list \<Rightarrow> 'a io \<Rightarrow> bool" where
  "quiet L m =
     (\<forall>w. live w = L \<longrightarrow>
        (\<exists>x es. m w = Inr (x, w\<lparr>trace := trace w @ es\<rparr>) \<and> filter is_alloc es = []))"

definition port_in :: "port \<Rightarrow> pointer list \<Rightarrow> bool" where
  "port_in p L = (case p of Serial \<Rightarrow> True | SoftSerial a \<Rightarrow> a \<in> set L)"

subsection \<open>Basic facts about the platform calls\<close>

declare probe_loop.simps [simp del]

lemma trace_add_ev [simp]: "trace (add_ev e w) = trace w @ [e]"
  by (simp add: add_ev_def)

lemma live_add_ev [simp]: "live (add_ev e w) = live w"
  by (simp add: add_ev_def)

lemma port_ok_Serial [simp]: "port_ok Serial w"
  by (simp add: port_ok_def)

lemma port_ok_SoftSerial [simp]: "port_ok (SoftSerial a) w = (a \<in> set (live w))"
  by (simp add: port_ok_def)

lemmas port_defs = port_begin_def port_end_def port_flush_def port_print_def port_println_def
  port_print_num_def port_println_num_def port_available_def port_read_def port_peek_def
  port_write_def

lemmas io_defs = bind_io_def return_io_def when_io_def call_def query_def delay_def

subsection \<open>The probing loop\<close>

lemma failed_probes_Nil [simp]: "failed_probes serial [] = []"
  by (simp add: failed_probes_def)

lemma failed_probes_Cons:
  "failed_probes serial (r # rs) =
     candidate_probe serial r @ EvAvailable (SoftSerial serial) 0 # failed_probes serial rs"
  by (simp add: failed_probes_def)

lemma rates_candidates: "rates = candidates"
  by (simp add: rates_def candidates_def)

lemma take_drop_rates:
  assumes "i < 5"
  shows "take (Suc m) (drop i rates) = rates ! i # take m (drop (Suc i) rates)"
proof -
  have "i < length rates"
    using assms by (simp add: rates_def)
  then show ?thesis
    by (simp add: Cons_nth_drop_Suc [symmetric])
qed

text \<open>One iteration of the loop, on an allocated port.\<close>

lemma probe_loop_unfold:
  assumes "serial \<in> set (live w)" "i < 5"
  shows "probe_loop dev serial i speed w =
    (let w1 = w\<lparr>trace := trace w @ candidate_probe serial (rates ! i)\<rparr>;
         a = dev_available dev (SoftSerial serial) (trace w1);
         w2 = w1\<lparr>trace := trace w1 @ [EvAvailable (SoftSerial serial) a]\<rparr>
     in if a \<noteq> 0 then Inr ((None, rates ! i), w2)
        else if i = 4 then Inr ((Some (- 1), speed), w2)
        else probe_loop dev serial (Suc i) speed w2)"
  using assms
  by (subst probe_loop.simps)
     (simp add: port_defs io_defs add_ev_def candidate_probe_def xbee_cmd_mode_def Let_def)

lemma probe_loop_found:
  assumes "serial \<in> set (live w)" "i + n < 5"
    and "\<forall>j<n. dev_available dev (SoftSerial serial)
           (trace w @ failed_probes serial (take j (drop i rates)) @
            candidate_probe serial (rates ! (i + j))) = 0"
    and "dev_available dev (SoftSerial serial)
           (trace w @ failed_probes serial (take n (drop i rates)) @
            candidate_probe serial (rates ! (i + n))) = a"
    and "a \<noteq> 0"
  shows "probe_loop dev serial i speed w =
           Inr ((None, rates ! (i + n)),
                w\<lparr>trace := trace w @ failed_probes serial (take n (drop i rates)) @
                     candidate_probe serial (rates ! (i + n)) @
                     [EvAvailable (SoftSerial serial) a]\<rparr>)"
  using assms
proof (induction n arbitrary: i w)
  case 0
  then show ?case
    by (simp add: probe_loop_unfold Let_def)
next
  case (Suc n)
  let ?w2 = "w\<lparr>trace := trace w @ candidate_probe serial (rates ! i) @
                 [EvAvailable (SoftSerial serial) 0]\<rparr>"
  have i: "i < 4" "i < 5"
    using Suc.prems(2) by simp_all
  note split = take_drop_rates [OF i(2)]
  have miss: "dev_available dev (SoftSerial serial)
                (trace w @ candidate_probe serial (rates ! i)) = 0"
    using Suc.prems(3) [rule_format, of 0] by simp
  have step: "probe_loop dev serial i speed w = probe_loop dev serial (Suc i) speed ?w2"
    using Suc.prems(1) i(1) miss by (simp add: probe_loop_unfold Let_def)
  have later: "\<forall>j<n. dev_available dev (SoftSerial serial)
           (trace ?w2 @ failed_probes serial (take j (drop (Suc i) rates)) @
            candidate_probe serial (rates ! (Suc i + j))) = 0"
  proof (intro allI impI)
    fix j assume "j < n"
    then show "dev_available dev (SoftSerial serial)
           (trace ?w2 @ failed_probes serial (take j (drop (Suc i) rates)) @
            candidate_probe serial (rates ! (Suc i + j))) = 0"
      using Suc.prems(3) [rule_format, of "Suc j"]
      by (simp add: split failed_probes_Cons)
  qed
  have hit: "dev_available dev (SoftSerial serial)
           (trace ?w2 @ failed_probes serial (take n (drop (Suc i) rates)) @
            candidate_probe serial (rates ! (Suc i + n))) = a"
    using Suc.prems(4) by (simp add: split failed_probes_Cons)
  have "probe_loop dev serial (Suc i) speed ?w2 =
          Inr ((None, rates ! (Suc i + n)),
               ?w2\<lparr>trace := trace ?w2 @ failed_probes serial (take n (drop (Suc i) rates)) @
                     candidate_probe serial (rates ! (Suc i + n)) @
                     [EvAvailable (SoftSerial serial) a]\<rparr>)"
    by (rule Suc.IH) (use Suc.prems later hit in simp_all)
  then show ?case
    by (simp add: step split failed_probes_Cons)
qed


text \<open>The draining loop makes at most \<open>n\<close> calls, all of them reads of the port.\<close>

lemma drain_loop_reads:
  assumes "serial \<in> set (live w)"
  shows "\<exists>reads. drain_loop dev serial n w = Inr ((), w\<lparr>trace := trace w @ reads\<rparr>) \<and>
           length reads \<le> n \<and> (\<forall>e\<in>set reads. \<exists>c. e = EvRead (SoftSerial serial) c)"
  using assms
proof (induction n arbitrary: w)
  case 0
  then show ?case by (simp add: return_io_def)
next
  case (Suc n)
  let ?c = "dev_read dev (SoftSerial serial) (trace w)"
  let ?w1 = "w\<lparr>trace := trace w @ [EvRead (SoftSerial serial) ?c]\<rparr>"
  show ?case
  proof (cases "sint (word_of_int ?c :: 8 word) = - 1")
    case True
    then have "drain_loop dev serial (Suc n) w = Inr ((), ?w1)"
      using Suc.prems by (simp add: port_defs io_defs add_ev_def Let_def)
    then show ?thesis
      by (intro exI [of _ "[EvRead (SoftSerial serial) ?c]"]) simp
  next
    case False
    then have step: "drain_loop dev serial (Suc n) w = drain_loop dev serial n ?w1"
      using Suc.prems by (simp add: port_defs io_defs add_ev_def Let_def)
    from Suc.IH [of ?w1] Suc.prems obtain reads where
      r: "drain_loop dev serial n ?w1 = Inr ((), ?w1\<lparr>trace := trace ?w1 @ reads\<rparr>)"
         "length reads \<le> n" "\<forall>e\<in>set reads. \<exists>c. e = EvRead (SoftSerial serial) c"
      by auto
    show ?thesis
      by (intro exI [of _ "EvRead (SoftSerial serial) ?c # reads"]) (use r step in simp)
  qed
qed

text \<open>The function up to its first check of \<^verbatim>\<open>available\<close>.\<close>

lemma enter_unfold:
  assumes "serial \<in> set (live w)"
  shows "enter_xbee_cmd_mode dev serial speed w =
    (let w1 = w\<lparr>trace := trace w @ first_probe serial speed\<rparr>;
         a = dev_available dev (SoftSerial serial) (trace w1);
         w2 = w1\<lparr>trace := trace w1 @ [EvAvailable (SoftSerial serial) a]\<rparr>
     in bind_io (if a = 0 then probe_loop dev serial 0 speed else return_io (None, speed))
          (\<lambda>(r, speed'). case r of Some v \<Rightarrow> return_io v
              | None \<Rightarrow> bind_io (drain_loop dev serial 2) (\<lambda>_. return_io 0)) w2)"
  using assms
  by (simp add: enter_xbee_cmd_mode_def port_defs io_defs add_ev_def first_probe_def
      xbee_cmd_mode_def Let_def)

lemma enter_needs_port:
  assumes "serial \<notin> set (live w)"
  shows "enter_xbee_cmd_mode dev serial speed w = Inl InvalidPointer"
  using assms by (simp add: enter_xbee_cmd_mode_def port_defs io_defs)

subsection \<open>Quiet actions\<close>

text \<open>
  Returning, sequencing, branching and every call on an allocated port are quiet; so are
  the two loops of the negotiator and the negotiator itself.
\<close>

lemma quietI:
  assumes "\<And>w. live w = L \<Longrightarrow> \<exists>x es. m w = Inr (x, w\<lparr>trace := trace w @ es\<rparr>) \<and> filter is_alloc es = []"
  shows "quiet L m"
  using assms by (simp add: quiet_def)

lemma quietD:
  assumes "quiet L m" "live w = L"
  obtains x es where "m w = Inr (x, w\<lparr>trace := trace w @ es\<rparr>)" "filter is_alloc es = []"
  using assms unfolding quiet_def by blast

lemma quiet_return [intro!]: "quiet L (return_io x)"
proof (rule quietI)
  fix w :: world
  have "return_io x w = Inr (x, w\<lparr>trace := trace w @ []\<rparr>)"
    by (simp add: return_io_def)
  then show "\<exists>y es. return_io x w = Inr (y, w\<lparr>trace := trace w @ es\<rparr>) \<and> filter is_alloc es = []"
    by (intro exI [of _ x] exI [of _ "[]"]) simp
qed

lemma quiet_bind [intro!]:
  assumes "quiet L m" "\<And>x. quiet L (k x)"
  shows "quiet L (bind_io m k)"
proof (rule quietI)
  fix w :: world
  assume L: "live w = L"
  from assms(1) L obtain x es where
    m: "m w = Inr (x, w\<lparr>trace := trace w @ es\<rparr>)" "filter is_alloc es = []"
    by (rule quietD)
  let ?w1 = "w\<lparr>trace := trace w @ es\<rparr>"
  have "live ?w1 = L"
    using L by simp
  with assms(2) [of x] obtain y es' where
    k: "k x ?w1 = Inr (y, ?w1\<lparr>trace := trace ?w1 @ es'\<rparr>)" "filter is_alloc es' = []"
    by (rule quietD)
  have "bind_io m k w = Inr (y, w\<lparr>trace := trace w @ (es @ es')\<rparr>)"
    using m(1) k(1) by (simp add: bind_io_def)
  moreover have "filter is_alloc (es @ es') = []"
    using m(2) k(2) by simp
  ultimately show "\<exists>y es. bind_io m k w = Inr (y, w\<lparr>trace := trace w @ es\<rparr>) \<and> filter is_alloc es = []"
    by blast
qed

lemma quiet_if [intro!]:
  assumes "c \<Longrightarrow> quiet L a" "\<not> c \<Longrightarrow> quiet L b"
  shows "quiet L (if c then a else b)"
  using assms by simp

lemma quiet_when [intro!]:
  assumes "c \<Longrightarrow> quiet L m"
  shows "quiet L (when_io c m)"
  using assms unfolding when_io_def by (cases c) (auto)

lemma quiet_run_Nil [intro!]: "quiet L (run [])"
  by (simp add: quiet_return)

lemma quiet_run_Cons [intro!]:
  assumes "quiet L a" "quiet L (run as)"
  shows "quiet L (run (a # as))"
  using assms by (simp add: quiet_bind)

lemma quiet_run:
  assumes "\<And>a. a \<in> set as \<Longrightarrow> quiet L a"
  shows "quiet L (run as)"
  using assms by (induction as) (auto)

lemma quiet_call:
  assumes "port_in p L" "\<not> is_alloc e"
  shows "quiet L (call p e)"
proof (rule quietI)
  fix w :: world
  assume "live w = L"
  with assms(1) have "port_ok p w"
    by (simp add: port_in_def port_ok_def split: port.splits)
  then have "call p e w = Inr ((), w\<lparr>trace := trace w @ [e]\<rparr>)"
    by (simp add: call_def add_ev_def)
  then show "\<exists>x es. call p e w = Inr (x, w\<lparr>trace := trace w @ es\<rparr>) \<and> filter is_alloc es = []"
    using assms(2) by (intro exI [of _ "()"] exI [of _ "[e]"]) simp
qed

lemma quiet_query:
  assumes "port_in p L" "\<And>a. \<not> is_alloc (ev a)"
  shows "quiet L (query p answer ev)"
proof (rule quietI)
  fix w :: world
  assume "live w = L"
  with assms(1) have "port_ok p w"
    by (simp add: port_in_def port_ok_def split: port.splits)
  then have "query p answer ev w =
      Inr (answer (trace w), w\<lparr>trace := trace w @ [ev (answer (trace w))]\<rparr>)"
    by (simp add: query_def add_ev_def Let_def)
  then show "\<exists>x es. query p answer ev w = Inr (x, w\<lparr>trace := trace w @ es\<rparr>) \<and> filter is_alloc es = []"
    using assms(2) by (intro exI [of _ "answer (trace w)"] exI [of _ "[ev (answer (trace w))]"]) simp
qed

lemma quiet_delay [intro!]: "quiet L (delay ms)"
proof (rule quietI)
  fix w :: world
  have "delay ms w = Inr ((), w\<lparr>trace := trace w @ [EvDelay ms]\<rparr>)"
    by (simp add: delay_def add_ev_def)
  then show "\<exists>x es. delay ms w = Inr (x, w\<lparr>trace := trace w @ es\<rparr>) \<and> filter is_alloc es = []"
    by (intro exI [of _ "()"] exI [of _ "[EvDelay ms]"]) simp
qed

lemma quiet_port [intro]:
  assumes "port_in p L"
  shows "quiet L (port_begin p baud)" "quiet L (port_end p)" "quiet L (port_flush p)"
    "quiet L (port_print p s)" "quiet L (port_println p s)"
    "quiet L (port_print_num p n)" "quiet L (port_println_num p n)"
    "quiet L (port_available dev p)" "quiet L (port_read dev p)" "quiet L (port_peek dev p)"
    "quiet L (port_write dev p b)"
  using assms by (simp_all add: port_defs quiet_call quiet_query)

lemma port_in_simps [simp]:
  "port_in Serial L" "port_in (SoftSerial a) L = (a \<in> set L)"
  by (simp_all add: port_in_def)

lemma quiet_probe_loop:
  assumes "serial \<in> set L"
  shows "quiet L (probe_loop dev serial i speed)"
  using assms
proof (induction dev serial i speed rule: probe_loop.induct)
  case (1 dev serial i speed)
  show ?case
    by (subst probe_loop.simps) (use 1 in \<open>auto\<close>)
qed

lemma quiet_drain_loop:
  assumes "serial \<in> set L"
  shows "quiet L (drain_loop dev serial n)"
  using assms by (induction n) auto

lemma quiet_enter:
  assumes "serial \<in> set L"
  shows "quiet L (enter_xbee_cmd_mode dev serial speed)"
  unfolding enter_xbee_cmd_mode_def
  using assms by (auto intro: quiet_probe_loop quiet_drain_loop split: option.splits)

lemma quiet_set_xbee:
  assumes "serial \<in> set L"
  shows "quiet L (set_xbee_baud_rate dev serial speed)"
  unfolding set_xbee_baud_rate_def
  using assms by (auto intro: quiet_enter)

subsection \<open>The rate switch and the devices\<close>

text \<open>The \<^verbatim>\<open>switch\<close> of \<^verbatim>\<open>set_xbee_baud_rate\<close> computes the RF command codes.\<close>

lemma unat_ulong_eq:
  fixes speed :: ulong
  assumes "n < 2 ^ 32"
  shows "(unat speed = n) = (speed = of_nat n)"
proof
  assume "unat speed = n"
  then have "of_nat (unat speed) = (of_nat n :: ulong)" by simp
  then show "speed = of_nat n" by simp
next
  assume "speed = of_nat n"
  then show "unat speed = n" using assms by (simp add: unat_of_nat)
qed

lemma rate_switch_code: "unat (rate_switch speed) = RF_code (unat speed)"
  by (simp add: rate_switch_def RF_code_def RF_Command_Codes_def unat_ulong_eq)

lemma last_begin_append:
  "last_begin p (xs @ ys) =
     (case last_begin p ys of Some b \<Rightarrow> Some b | None \<Rightarrow> last_begin p xs)"
  by (induction xs) (auto split: option.splits)

lemma last_begin_candidate_probe [simp]:
  "last_begin (SoftSerial serial) (tr @ candidate_probe serial r) = Some r"
  by (simp add: last_begin_append candidate_probe_def)

lemma last_begin_first_probe [simp]:
  "last_begin (SoftSerial serial) (tr @ first_probe serial r) = Some r"
  by (simp add: last_begin_append first_probe_def)

subsection \<open>Claims about the negotiator\<close>

text \<open>
  Claim C1. Whenever \<^verbatim>\<open>_enter_xbee_cmd_mode\<close> succeeds (returns 0), whether the module
  answered at the requested speed or at a fallback candidate, \<^verbatim>\<open>set_xbee_baud_rate\<close>
  goes on with exactly the configure sequence, and the number written after
  \<^verbatim>\<open>ATBD\<close> is the RF command code of the requested speed: the speed found while
  probing plays no part in it.
\<close>

theorem baud_code_from_target:
  assumes "enter_xbee_cmd_mode dev serial speed w = Inr (0, w1)"
  shows "set_xbee_baud_rate dev serial speed w =
           Inr ((), w1\<lparr>trace := trace w1 @
             [EvPrint (SoftSerial serial) ''ATBD '',
              EvPrintlnNum (SoftSerial serial) (RF_code (unat speed)),
              EvPrintln (SoftSerial serial) ''ATWR'',
              EvDelay 1200,
              EvPrintln (SoftSerial serial) ''ATCN'',
              EvDelay 1200,
              EvPrint Serial ''Set XBEE baud rate to '',
              EvPrintlnNum Serial (unat speed)]\<rparr>)"
proof -
  have port: "serial \<in> set (live w)"
    using assms enter_needs_port [of serial w dev speed] by (cases "serial \<in> set (live w)") auto
  then have "quiet (live w) (enter_xbee_cmd_mode dev serial speed)"
    by (rule quiet_enter)
  then obtain x es where "enter_xbee_cmd_mode dev serial speed w = Inr (x, w\<lparr>trace := trace w @ es\<rparr>)"
    by (rule quietD) simp
  with assms have "live w1 = live w"
    by auto
  with port have "serial \<in> set (live w1)"
    by simp
  then show ?thesis
    using assms
    by (simp add: set_xbee_baud_rate_def port_defs io_defs add_ev_def rate_switch_code
        xbee_cmd_baud_def xbee_cmd_write_def xbee_cmd_close_def xbee_baud_success_def)
qed

lemma drain_loop_2:
  "drain_loop dev serial 2 =
     bind_io (port_read dev (SoftSerial serial)) (\<lambda>c.
       if sint (word_of_int c :: 8 word) = - 1 then return_io ()
       else bind_io (port_read dev (SoftSerial serial)) (\<lambda>c. return_io ()))"
proof -
  have "drain_loop dev serial 2 = drain_loop dev serial (Suc (Suc 0))"
    by (simp only: numeral_2_eq_2)
  then show ?thesis
    by (simp add: bind_io_def if_distrib cong: if_cong)
qed

lemma enter_at_19200:
  "enter_xbee_cmd_mode (xbee_at 19200) 1 9600 world1 =
     Inr (0, world1\<lparr>trace := first_probe 1 9600 @ [EvAvailable (SoftSerial 1) 0] @
               failed_probes 1 [9600, 57600, 115200] @ candidate_probe 1 19200 @
               [EvAvailable (SoftSerial 1) 1, EvRead (SoftSerial 1) (- 1)]\<rparr>)"
  by (simp add: enter_xbee_cmd_mode_def probe_loop.simps port_defs io_defs add_ev_def
      xbee_at_def world1_def rates_def first_probe_def failed_probes_def candidate_probe_def
      xbee_cmd_mode_def drain_loop_2 Let_def)


text \<open>
  A module running at 19200 and a request for 9600: the module is found at the fourth
  candidate, and the code written is 3, the code of 9600, not 4, the code of 19200.
\<close>

theorem baud_code_from_target_witness:
  "enter_xbee_cmd_mode (xbee_at 19200) 1 9600 world1 =
     Inr (0, world1\<lparr>trace := first_probe 1 9600 @ [EvAvailable (SoftSerial 1) 0] @
               failed_probes 1 [9600, 57600, 115200] @ candidate_probe 1 19200 @
               [EvAvailable (SoftSerial 1) 1, EvRead (SoftSerial 1) (- 1)]\<rparr>) \<and>
   set_xbee_baud_rate (xbee_at 19200) 1 9600 world1 =
     Inr ((), world1\<lparr>trace := first_probe 1 9600 @ [EvAvailable (SoftSerial 1) 0] @
               failed_probes 1 [9600, 57600, 115200] @ candidate_probe 1 19200 @
               [EvAvailable (SoftSerial 1) 1, EvRead (SoftSerial 1) (- 1),
                EvPrint (SoftSerial 1) ''ATBD '',
                EvPrintlnNum (SoftSerial 1) 3,
                EvPrintln (SoftSerial 1) ''ATWR'',
                EvDelay 1200,
                EvPrintln (SoftSerial 1) ''ATCN'',
                EvDelay 1200,
                EvPrint Serial ''Set XBEE baud rate to '',
                EvPrintlnNum Serial 9600]\<rparr>)"
  using baud_code_from_target [OF enter_at_19200] enter_at_19200
  by (simp add: RF_code_def RF_Command_Codes_def)



text \<open>
  Claim C3. When the probe at the requested speed finds nothing, the candidates are
  probed in the order 9600, 57600, 115200, 19200, 38400, each by closing the port,
  reopening it at the candidate, writing \<^verbatim>\<open>+++\<close>, waiting 1200 ms and checking
  \<^verbatim>\<open>available\<close>. If candidate \<open>k\<close> is the first to answer, the loop stops right after
  its check with the local \<^verbatim>\<open>speed\<close> set to that candidate, the port stays open at that
  rate, and the function returns 0 after at most two reads.
\<close>

theorem fallback_order:
  assumes "serial \<in> set (live w)"
    and "dev_available dev (SoftSerial serial) (trace w @ first_probe serial speed) = 0"
    and "k < 5"
    and "\<forall>j<k. dev_available dev (SoftSerial serial) (history w serial speed j) = 0"
    and "dev_available dev (SoftSerial serial) (history w serial speed k) \<noteq> 0"
  shows "\<exists>a reads. a \<noteq> 0 \<and>
           probe_loop dev serial 0 speed
               (w\<lparr>trace := trace w @ first_probe serial speed @
                     [EvAvailable (SoftSerial serial) 0]\<rparr>) =
             Inr ((None, [9600, 57600, 115200, 19200, 38400] ! k),
                  w\<lparr>trace := history w serial speed k @ [EvAvailable (SoftSerial serial) a]\<rparr>) \<and>
           enter_xbee_cmd_mode dev serial speed w =
             Inr (0, w\<lparr>trace := history w serial speed k @
                        [EvAvailable (SoftSerial serial) a] @ reads\<rparr>) \<and>
           length reads \<le> 2 \<and> (\<forall>e\<in>set reads. \<exists>c. e = EvRead (SoftSerial serial) c)"
proof -
  let ?w2 = "w\<lparr>trace := trace w @ first_probe serial speed @
                  [EvAvailable (SoftSerial serial) 0]\<rparr>"
  define a where "a = dev_available dev (SoftSerial serial) (history w serial speed k)"
  let ?w3 = "w\<lparr>trace := history w serial speed k @ [EvAvailable (SoftSerial serial) a]\<rparr>"
  have a: "a \<noteq> 0"
    using assms(5) by (simp add: a_def)
  have "probe_loop dev serial 0 speed ?w2 =
           Inr ((None, rates ! (0 + k)),
                ?w2\<lparr>trace := trace ?w2 @ failed_probes serial (take k (drop 0 rates)) @
                     candidate_probe serial (rates ! (0 + k)) @
                     [EvAvailable (SoftSerial serial) a]\<rparr>)"
    using assms(1,3,4) a
    by (intro probe_loop_found) (simp_all add: history_def rates_candidates a_def)
  then have loop: "probe_loop dev serial 0 speed ?w2 = Inr ((None, candidates ! k), ?w3)"
    by (simp add: history_def rates_candidates)
  have "serial \<in> set (live ?w3)"
    using assms(1) by simp
  then obtain reads where reads:
    "drain_loop dev serial 2 ?w3 = Inr ((), ?w3\<lparr>trace := trace ?w3 @ reads\<rparr>)"
    "length reads \<le> 2" "\<forall>e\<in>set reads. \<exists>c. e = EvRead (SoftSerial serial) c"
    using drain_loop_reads [of serial ?w3 dev 2] by blast
  have "enter_xbee_cmd_mode dev serial speed w =
          Inr (0, w\<lparr>trace := history w serial speed k @
                        [EvAvailable (SoftSerial serial) a] @ reads\<rparr>)"
    using assms(1,2) loop reads(1)
    by (simp add: enter_unfold Let_def bind_io_def return_io_def)
  with a loop reads(2,3) show ?thesis
    unfolding candidates_def by blast
qed

text \<open>A module running at 19200, asked for 9600: the fourth candidate answers.\<close>

theorem fallback_order_witness:
  "1 \<in> set (live world1) \<and>
   dev_available (xbee_at 19200) (SoftSerial 1) (trace world1 @ first_probe 1 9600) = 0 \<and>
   (3::nat) < 5 \<and>
   dev_available (xbee_at 19200) (SoftSerial 1) (history world1 1 9600 0) = 0 \<and>
   dev_available (xbee_at 19200) (SoftSerial 1) (history world1 1 9600 1) = 0 \<and>
   dev_available (xbee_at 19200) (SoftSerial 1) (history world1 1 9600 2) = 0 \<and>
   dev_available (xbee_at 19200) (SoftSerial 1) (history world1 1 9600 3) \<noteq> 0 \<and>
   (\<exists>a reads. a \<noteq> 0 \<and>
      probe_loop (xbee_at 19200) 1 0 9600
          (world1\<lparr>trace := trace world1 @ first_probe 1 9600 @ [EvAvailable (SoftSerial 1) 0]\<rparr>) =
        Inr ((None, 19200),
             world1\<lparr>trace := history world1 1 9600 3 @ [EvAvailable (SoftSerial 1) a]\<rparr>) \<and>
      enter_xbee_cmd_mode (xbee_at 19200) 1 9600 world1 =
        Inr (0, world1\<lparr>trace := history world1 1 9600 3 @
                   [EvAvailable (SoftSerial 1) a] @ reads\<rparr>))"
proof -
  have h1: "1 \<in> set (live world1)"
    by (simp add: world1_def)
  have h2: "dev_available (xbee_at 19200) (SoftSerial 1) (trace world1 @ first_probe 1 9600) = 0"
    by (simp add: xbee_at_def)
  have h3: "(3::nat) < 5"
    by simp
  have h4: "\<forall>j<3. dev_available (xbee_at 19200) (SoftSerial 1) (history world1 1 9600 j) = 0"
    by (simp add: numeral_3_eq_3 All_less_Suc history_def xbee_at_def last_begin_append
        candidate_probe_def candidates_def)
  have h5: "dev_available (xbee_at 19200) (SoftSerial 1) (history world1 1 9600 3) \<noteq> 0"
    by (simp add: history_def xbee_at_def last_begin_append candidate_probe_def candidates_def)
  have h4': "dev_available (xbee_at 19200) (SoftSerial 1) (history world1 1 9600 0) = 0"
    "dev_available (xbee_at 19200) (SoftSerial 1) (history world1 1 9600 1) = 0"
    "dev_available (xbee_at 19200) (SoftSerial 1) (history world1 1 9600 2) = 0"
    using h4 by simp_all
  from fallback_order [OF h1 h2 h3 h4 h5] obtain a reads where
    "a \<noteq> 0 \<and>
      probe_loop (xbee_at 19200) 1 0 9600
          (world1\<lparr>trace := trace world1 @ first_probe 1 9600 @ [EvAvailable (SoftSerial 1) 0]\<rparr>) =
        Inr ((None, 19200),
             world1\<lparr>trace := history world1 1 9600 3 @ [EvAvailable (SoftSerial 1) a]\<rparr>) \<and>
      enter_xbee_cmd_mode (xbee_at 19200) 1 9600 world1 =
        Inr (0, world1\<lparr>trace := history world1 1 9600 3 @
                   [EvAvailable (SoftSerial 1) a] @ reads\<rparr>)"
    by auto
  then have "\<exists>a reads. a \<noteq> 0 \<and>
      probe_loop (xbee_at 19200) 1 0 9600
          (world1\<lparr>trace := trace world1 @ first_probe 1 9600 @ [EvAvailable (SoftSerial 1) 0]\<rparr>) =
        Inr ((None, 19200),
             world1\<lparr>trace := history world1 1 9600 3 @ [EvAvailable (SoftSerial 1) a]\<rparr>) \<and>
      enter_xbee_cmd_mode (xbee_at 19200) 1 9600 world1 =
        Inr (0, world1\<lparr>trace := history world1 1 9600 3 @
                   [EvAvailable (SoftSerial 1) a] @ reads\<rparr>)"
    by blast
  with h1 h2 h3 h4' h5 show ?thesis
    by (intro conjI)
qed

subsection \<open>Claims about the class\<close>

text \<open>
  Claim C4. The constructor that takes only a mode stores \<^verbatim>\<open>SERIAL_MODE_HARDWARE\<close>
  whatever mode is requested, and makes no call at all: the world it returns is the
  world it started in, so nothing is printed and the caller is told nothing. The
  message \<^verbatim>\<open>no_software_params_err_msg\<close> of the file is never used.
\<close>

theorem mode_only_constructor_is_silent:
  "ArdusatSerial_mode initial mode w =
     Inr (\<lparr>f_mode = SERIAL_MODE_HARDWARE, f_soft_serial = initial\<rparr>, w)"
  by (simp add: ArdusatSerial_mode_def return_io_def)

lemma size_t_le_1:
  fixes r :: size_t
  assumes "r \<le> 1"
  shows "r = 0 \<or> r = 1"
proof -
  from assms have "r < 1 \<or> r = 1"
    by (simp add: order_le_less)
  then show ?thesis
    by simp
qed

text \<open>
  Claim C5. \<^verbatim>\<open>write(b)\<close> passes \<open>b\<close> to the software port when the mode is software
  or both, then to \<^verbatim>\<open>Serial\<close> when the mode is hardware or both, and to nothing else.
  When each port reports 0 or 1 byte written, the result is 1 if every port written to
  reported 1, and 0 otherwise.
\<close>

theorem write_is_and_of_results:
  assumes "usable f w"
    and "\<forall>p tr. dev_write dev p b tr \<le> 1"
  shows "write_serial dev f b w =
    (case f_mode f of
       SERIAL_MODE_HARDWARE \<Rightarrow>
         (let r = dev_write dev Serial b (trace w)
          in Inr (if r = 1 then 1 else 0, w\<lparr>trace := trace w @ [EvWrite Serial b r]\<rparr>))
     | SERIAL_MODE_SOFTWARE \<Rightarrow>
         (let r = dev_write dev (SoftSerial (f_soft_serial f)) b (trace w)
          in Inr (if r = 1 then 1 else 0,
                  w\<lparr>trace := trace w @ [EvWrite (SoftSerial (f_soft_serial f)) b r]\<rparr>))
     | SERIAL_MODE_HARDWARE_AND_SOFTWARE \<Rightarrow>
         (let r1 = dev_write dev (SoftSerial (f_soft_serial f)) b (trace w);
              r2 = dev_write dev Serial b
                     (trace w @ [EvWrite (SoftSerial (f_soft_serial f)) b r1])
          in Inr (if r1 = 1 \<and> r2 = 1 then 1 else 0,
                  w\<lparr>trace := trace w @ [EvWrite (SoftSerial (f_soft_serial f)) b r1,
                                          EvWrite Serial b r2]\<rparr>)))"
proof (cases "f_mode f")
  case SERIAL_MODE_HARDWARE
  have "dev_write dev Serial b (trace w) = 0 \<or> dev_write dev Serial b (trace w) = 1"
    using assms(2) by (intro size_t_le_1) simp
  then show ?thesis
    using SERIAL_MODE_HARDWARE
    by (auto simp add: write_serial_def port_defs io_defs add_ev_def Let_def)
next
  case SERIAL_MODE_SOFTWARE
  have "dev_write dev (SoftSerial (f_soft_serial f)) b (trace w) = 0 \<or>
        dev_write dev (SoftSerial (f_soft_serial f)) b (trace w) = 1"
    using assms(2) by (intro size_t_le_1) simp
  then show ?thesis
    using SERIAL_MODE_SOFTWARE assms(1)
    by (auto simp add: write_serial_def usable_def port_defs io_defs add_ev_def Let_def)
next
  case SERIAL_MODE_HARDWARE_AND_SOFTWARE
  let ?r1 = "dev_write dev (SoftSerial (f_soft_serial f)) b (trace w)"
  let ?r2 = "dev_write dev Serial b (trace w @ [EvWrite (SoftSerial (f_soft_serial f)) b ?r1])"
  have "?r1 = 0 \<or> ?r1 = 1" "?r2 = 0 \<or> ?r2 = 1"
    using assms(2) by (intro size_t_le_1; simp)+
  then show ?thesis
    using SERIAL_MODE_HARDWARE_AND_SOFTWARE assms(1)
    by (auto simp add: write_serial_def usable_def port_defs io_defs add_ev_def Let_def)
qed

text \<open>
  In mode both, with a software port that accepts no byte while \<^verbatim>\<open>Serial\<close> does: both
  ports are written to and the result is 0.
\<close>

theorem write_is_and_of_results_witness:
  "usable \<lparr>f_mode = SERIAL_MODE_HARDWARE_AND_SOFTWARE, f_soft_serial = 1\<rparr> world1 \<and>
   (\<forall>p tr. dev_write silent p 65 tr \<le> 1) \<and>
   write_serial silent \<lparr>f_mode = SERIAL_MODE_HARDWARE_AND_SOFTWARE, f_soft_serial = 1\<rparr> 65 world1 =
     Inr (0, world1\<lparr>trace := [EvWrite (SoftSerial 1) 65 0, EvWrite Serial 65 1]\<rparr>)"
proof -
  let ?f = "\<lparr>f_mode = SERIAL_MODE_HARDWARE_AND_SOFTWARE, f_soft_serial = 1\<rparr>"
  have h1: "usable ?f world1"
    by (simp add: usable_def world1_def)
  have h2: "\<forall>p tr. dev_write silent p 65 tr \<le> 1"
    by (simp add: silent_def split: port.splits)
  have "trace world1 = []"
    by (simp add: world1_def)
  with write_is_and_of_results [OF h1 h2] h1 h2 show ?thesis
    by (simp add: silent_def)
qed

text \<open>
  Claim C6. For a baud rate outside 1200, 2400, 4800, 9600, 19200, 38400, 57600,
  \<^verbatim>\<open>beginBluetooth\<close> opens \<^verbatim>\<open>Serial\<close> at 9600 and prints on it the rejected value
  and the three parts of the message, the last being the list of supported rates. It
  makes no other call: no \<^verbatim>\<open>$$$\<close>, no rate command, nothing on the software port,
  in every mode.
\<close>

theorem bluetooth_rejects_unsupported_rate:
  assumes "baud \<notin> {1200, 2400, 4800, 9600, 19200, 38400, 57600}"
  shows "beginBluetooth f baud w =
           Inr ((), w\<lparr>trace := trace w @
             [EvBegin Serial 9600,
              EvPrintNum Serial (unat baud),
              EvPrintln Serial '' isn't a supported bluetooth baud rate.'',
              EvPrintln Serial ''Supported baud rates are:'',
              EvPrintln Serial ''1200 2400 4800 9600 19200 38400 57600'']\<rparr>)"
  using assms
  by (simp add: beginBluetooth_def baud_switch_def port_defs io_defs add_ev_def
      bt_bad_baud_err1_def bt_bad_baud_err2_def bt_bad_baud_err3_def)

theorem bluetooth_rejects_unsupported_rate_witness:
  "(12345 :: ulong) \<notin> {1200, 2400, 4800, 9600, 19200, 38400, 57600} \<and>
   beginBluetooth \<lparr>f_mode = SERIAL_MODE_HARDWARE_AND_SOFTWARE, f_soft_serial = 1\<rparr> 12345 world1 =
     Inr ((), world1\<lparr>trace :=
             [EvBegin Serial 9600,
              EvPrintNum Serial 12345,
              EvPrintln Serial '' isn't a supported bluetooth baud rate.'',
              EvPrintln Serial ''Supported baud rates are:'',
              EvPrintln Serial ''1200 2400 4800 9600 19200 38400 57600'']\<rparr>)"
proof -
  have h: "(12345 :: ulong) \<notin> {1200, 2400, 4800, 9600, 19200, 38400, 57600}"
    by simp
  have "trace world1 = []"
    by (simp add: world1_def)
  with bluetooth_rejects_unsupported_rate [OF h] h show ?thesis
    by simp
qed

text \<open>
  Claim C7. \<^verbatim>\<open>beginBluetooth(9600)\<close> writes nothing: in mode hardware it opens
  \<^verbatim>\<open>Serial\<close> at 9600; in mode software it closes the software port and opens it at
  9600; in mode both it does the latter and then opens \<^verbatim>\<open>Serial\<close> at 9600.
\<close>

theorem bluetooth_9600_skips_command_mode:
  assumes "usable f w"
  shows "beginBluetooth f 9600 w =
           Inr ((), w\<lparr>trace := trace w @
             (case f_mode f of
                SERIAL_MODE_HARDWARE \<Rightarrow> [EvBegin Serial 9600]
              | SERIAL_MODE_SOFTWARE \<Rightarrow>
                  [EvEnd (SoftSerial (f_soft_serial f)),
                   EvBegin (SoftSerial (f_soft_serial f)) 9600]
              | SERIAL_MODE_HARDWARE_AND_SOFTWARE \<Rightarrow>
                  [EvEnd (SoftSerial (f_soft_serial f)),
                   EvBegin (SoftSerial (f_soft_serial f)) 9600,
                   EvBegin Serial 9600])\<rparr>)"
  using assms
  by (cases "f_mode f")
     (simp_all add: beginBluetooth_def baud_switch_def usable_def port_defs io_defs add_ev_def)

theorem bluetooth_9600_skips_command_mode_witness:
  "usable \<lparr>f_mode = SERIAL_MODE_HARDWARE_AND_SOFTWARE, f_soft_serial = 1\<rparr> world1 \<and>
   beginBluetooth \<lparr>f_mode = SERIAL_MODE_HARDWARE_AND_SOFTWARE, f_soft_serial = 1\<rparr> 9600 world1 =
     Inr ((), world1\<lparr>trace :=
            [EvEnd (SoftSerial 1), EvBegin (SoftSerial 1) 9600, EvBegin Serial 9600]\<rparr>)"
proof -
  let ?f = "\<lparr>f_mode = SERIAL_MODE_HARDWARE_AND_SOFTWARE, f_soft_serial = 1\<rparr>"
  have h: "usable ?f world1"
    by (simp add: usable_def world1_def)
  have "trace world1 = []"
    by (simp add: world1_def)
  with bluetooth_9600_skips_command_mode [OF h] h show ?thesis
    by simp
qed

text \<open>
  Claim C9. Each of \<^verbatim>\<open>peek\<close>, \<^verbatim>\<open>read\<close> and \<^verbatim>\<open>available\<close> makes one call, on the
  software port when the mode is software or both and on \<^verbatim>\<open>Serial\<close> otherwise, and
  returns what that port answers. In mode both \<^verbatim>\<open>Serial\<close> is not asked.
\<close>

theorem reads_use_one_port:
  assumes "usable f w"
    and "p = (if f_mode f = SERIAL_MODE_SOFTWARE \<or> f_mode f = SERIAL_MODE_HARDWARE_AND_SOFTWARE
              then SoftSerial (f_soft_serial f) else Serial)"
  shows "peek dev f w =
           Inr (dev_peek dev p (trace w),
                w\<lparr>trace := trace w @ [EvPeek p (dev_peek dev p (trace w))]\<rparr>) \<and>
         read dev f w =
           Inr (dev_read dev p (trace w),
                w\<lparr>trace := trace w @ [EvRead p (dev_read dev p (trace w))]\<rparr>) \<and>
         available dev f w =
           Inr (dev_available dev p (trace w),
                w\<lparr>trace := trace w @ [EvAvailable p (dev_available dev p (trace w))]\<rparr>)"
  using assms
  by (auto simp add: peek_def read_def available_def return_serial_function_def usable_def
      port_defs io_defs add_ev_def Let_def)

theorem reads_use_one_port_witness:
  "usable \<lparr>f_mode = SERIAL_MODE_HARDWARE_AND_SOFTWARE, f_soft_serial = 1\<rparr> world1 \<and>
   peek silent \<lparr>f_mode = SERIAL_MODE_HARDWARE_AND_SOFTWARE, f_soft_serial = 1\<rparr> world1 =
     Inr (- 1, world1\<lparr>trace := [EvPeek (SoftSerial 1) (- 1)]\<rparr>) \<and>
   read silent \<lparr>f_mode = SERIAL_MODE_HARDWARE_AND_SOFTWARE, f_soft_serial = 1\<rparr> world1 =
     Inr (- 1, world1\<lparr>trace := [EvRead (SoftSerial 1) (- 1)]\<rparr>) \<and>
   available silent \<lparr>f_mode = SERIAL_MODE_HARDWARE_AND_SOFTWARE, f_soft_serial = 1\<rparr> world1 =
     Inr (0, world1\<lparr>trace := [EvAvailable (SoftSerial 1) 0]\<rparr>)"
proof -
  let ?f = "\<lparr>f_mode = SERIAL_MODE_HARDWARE_AND_SOFTWARE, f_soft_serial = 1\<rparr>"
  have h: "usable ?f world1"
    by (simp add: usable_def world1_def)
  have "trace world1 = []"
    by (simp add: world1_def)
  with reads_use_one_port [OF h refl, of silent] h show ?thesis
    by (simp add: silent_def)
qed

text \<open>
  Claim C10. In mode both, for a supported rate other than 9600, \<^verbatim>\<open>beginBluetooth\<close>
  closes the software port, opens it at 9600, writes \<^verbatim>\<open>$$$\<close> to it, waits 100 ms,
  writes the rate command to it, closes it and opens it at the requested rate. The only
  call on \<^verbatim>\<open>Serial\<close> comes last: it is opened at the requested rate.
\<close>

theorem bluetooth_both_configures_software_port_only:
  assumes "f_mode f = SERIAL_MODE_HARDWARE_AND_SOFTWARE"
    and "usable f w"
    and "baud \<in> {1200, 2400, 4800, 19200, 38400, 57600}"
  shows "\<exists>cmd. baud_switch baud = Some cmd \<and>
           beginBluetooth f baud w =
             Inr ((), w\<lparr>trace := trace w @
               [EvEnd (SoftSerial (f_soft_serial f)),
                EvBegin (SoftSerial (f_soft_serial f)) 9600,
                EvPrint (SoftSerial (f_soft_serial f)) ''$$$'',
                EvDelay 100,
                EvPrintln (SoftSerial (f_soft_serial f)) cmd,
                EvEnd (SoftSerial (f_soft_serial f)),
                EvBegin (SoftSerial (f_soft_serial f)) baud,
                EvBegin Serial baud]\<rparr>)"
proof -
  from assms(3) obtain cmd where cmd: "baud_switch baud = Some cmd"
    by (auto simp add: baud_switch_def)
  from assms(3) have "baud \<noteq> 9600"
    by auto
  with assms(1,2) cmd have "beginBluetooth f baud w =
             Inr ((), w\<lparr>trace := trace w @
               [EvEnd (SoftSerial (f_soft_serial f)),
                EvBegin (SoftSerial (f_soft_serial f)) 9600,
                EvPrint (SoftSerial (f_soft_serial f)) ''$$$'',
                EvDelay 100,
                EvPrintln (SoftSerial (f_soft_serial f)) cmd,
                EvEnd (SoftSerial (f_soft_serial f)),
                EvBegin (SoftSerial (f_soft_serial f)) baud,
                EvBegin Serial baud]\<rparr>)"
    by (simp add: beginBluetooth_def usable_def port_defs io_defs add_ev_def bt_cmd_mode_def)
  with cmd show ?thesis
    by blast
qed

theorem bluetooth_both_configures_software_port_only_witness:
  "f_mode \<lparr>f_mode = SERIAL_MODE_HARDWARE_AND_SOFTWARE, f_soft_serial = 1\<rparr> =
     SERIAL_MODE_HARDWARE_AND_SOFTWARE \<and>
   usable \<lparr>f_mode = SERIAL_MODE_HARDWARE_AND_SOFTWARE, f_soft_serial = 1\<rparr> world1 \<and>
   (57600 :: ulong) \<in> {1200, 2400, 4800, 19200, 38400, 57600} \<and>
   beginBluetooth \<lparr>f_mode = SERIAL_MODE_HARDWARE_AND_SOFTWARE, f_soft_serial = 1\<rparr> 57600 world1 =
     Inr ((), world1\<lparr>trace :=
            [EvEnd (SoftSerial 1), EvBegin (SoftSerial 1) 9600, EvPrint (SoftSerial 1) ''$$$'',
             EvDelay 100, EvPrintln (SoftSerial 1) ''U,576K,N'', EvEnd (SoftSerial 1),
             EvBegin (SoftSerial 1) 57600, EvBegin Serial 57600]\<rparr>)"
proof -
  let ?f = "\<lparr>f_mode = SERIAL_MODE_HARDWARE_AND_SOFTWARE, f_soft_serial = 1\<rparr>"
  have h1: "f_mode ?f = SERIAL_MODE_HARDWARE_AND_SOFTWARE"
    by simp
  have h2: "usable ?f world1"
    by (simp add: usable_def world1_def)
  have h3: "(57600 :: ulong) \<in> {1200, 2400, 4800, 19200, 38400, 57600}"
    by simp
  have "trace world1 = []"
    by (simp add: world1_def)
  with bluetooth_both_configures_software_port_only [OF h1 h2 h3] h2 show ?thesis
    by (simp add: baud_switch_def bt_57600_baud_cmd_def)
qed

subsection \<open>Lifetime of the software port\<close>

lemma fold_max_ge: "a \<in> set ps \<Longrightarrow> a \<le> fold max ps (m :: nat)"
proof (induction ps arbitrary: m)
  case Nil
  then show ?case by simp
next
  case (Cons p ps)
  have mono: "\<And>n. n \<le> fold max ps n"
  proof -
    fix n show "n \<le> fold max ps n"
      by (induction ps arbitrary: n) (auto intro: order_trans [OF max.cobounded2])
  qed
  from Cons.prems consider "a = p" | "a \<in> set ps" by auto
  then show ?case
  proof cases
    case 1
    have "a \<le> max a m" by simp
    also have "\<dots> \<le> fold max ps (max a m)" by (rule mono)
    finally show ?thesis using 1 by simp
  next
    case 2
    then show ?thesis using Cons.IH by simp
  qed
qed

lemma fresh_pointer_new: "fresh_pointer ps \<notin> set ps"
proof
  assume "fresh_pointer ps \<in> set ps"
  then have "fresh_pointer ps \<le> fold max ps 0"
    by (rule fold_max_ge)
  then show False
    by (simp add: fresh_pointer_def)
qed

lemma fresh_pointer_not_null: "fresh_pointer ps \<noteq> 0"
  by (simp add: fresh_pointer_def)

text \<open>Every member function is quiet on an object that is usable.\<close>

lemma quiet_perform:
  assumes "f_mode f = SERIAL_MODE_HARDWARE \<or> f_soft_serial f \<noteq> 0 \<and> f_soft_serial f \<in> set L"
  shows "quiet L (perform dev f operation)"
proof (cases operation)
  case (OpBegin baud setXbeeSpeed)
  with assms show ?thesis
    by (auto simp add: begin_serial_def intro: quiet_set_xbee)
next
  case (OpBeginBluetooth baud)
  with assms show ?thesis
    by (auto simp add: beginBluetooth_def split: option.splits)
next
  case OpEnd
  with assms show ?thesis
    by (auto simp add: end_serial_def send_to_serial_def)
next
  case OpPeek
  with assms show ?thesis
    by (auto simp add: peek_def return_serial_function_def)
next
  case OpRead
  with assms show ?thesis
    by (auto simp add: read_def return_serial_function_def)
next
  case OpAvailable
  with assms show ?thesis
    by (auto simp add: available_def return_serial_function_def)
next
  case OpFlush
  with assms show ?thesis
    by (auto simp add: flush_def send_to_serial_def)
next
  case (OpWrite b)
  with assms show ?thesis
    by (auto simp add: write_serial_def)
qed

lemma quiet_perform_all:
  assumes "f_mode f = SERIAL_MODE_HARDWARE \<or> f_soft_serial f \<noteq> 0 \<and> f_soft_serial f \<in> set L"
  shows "quiet L (perform_all dev f ops)"
  unfolding perform_all_def
  by (rule quiet_run) (use assms in \<open>auto intro: quiet_perform\<close>)

text \<open>What the two constructors return when the member starts as \<^verbatim>\<open>NULL\<close>.\<close>

lemma construct_result:
  "construct 0 c w =
     (case c of
        ModeOnly mode \<Rightarrow> Inr (\<lparr>f_mode = SERIAL_MODE_HARDWARE, f_soft_serial = 0\<rparr>, w)
      | WithPins mode rx tx inverse_logic \<Rightarrow>
          if mode = SERIAL_MODE_SOFTWARE \<or> mode = SERIAL_MODE_HARDWARE_AND_SOFTWARE
          then Inr (\<lparr>f_mode = mode, f_soft_serial = fresh_pointer (live w)\<rparr>,
                    w\<lparr>trace := trace w @ [EvNew (fresh_pointer (live w)) rx tx inverse_logic],
                      live := fresh_pointer (live w) # live w\<rparr>)
          else Inr (\<lparr>f_mode = mode, f_soft_serial = 0\<rparr>, w))"
  by (cases c)
     (simp_all add: ArdusatSerial_mode_def ArdusatSerial_pins_def new_SoftwareSerial_def
       bind_io_def return_io_def add_ev_def Let_def)

text \<open>
  The lifetime of an object whose member \<^verbatim>\<open>_soft_serial\<close> is \<^verbatim>\<open>NULL\<close> when the
  constructor starts, as it is for an object of static storage duration. Either
  constructor returns an object whose \<^verbatim>\<open>_soft_serial\<close> is set exactly when its mode is
  software or both; in that case the constructor has made one \<^verbatim>\<open>new\<close>, of an address
  not in use before, and otherwise none. Any sequence of member functions then returns
  without a \<^verbatim>\<open>new\<close> or a \<^verbatim>\<open>delete\<close>, leaving the allocated addresses as they
  are. The destructor makes one \<^verbatim>\<open>delete\<close>, of that address, when the mode is software
  or both and none otherwise, and the allocated addresses are again those from before
  the construction.
\<close>

lemma lifetime_from_null_member:
  assumes "initial = 0"
  shows "\<exists>f w1 news es w3.
           construct initial c w = Inr (f, w1) \<and>
           (f_soft_serial f \<noteq> 0) =
             (f_mode f = SERIAL_MODE_SOFTWARE \<or> f_mode f = SERIAL_MODE_HARDWARE_AND_SOFTWARE) \<and>
           usable f w1 \<and>
           trace w1 = trace w @ news \<and>
           (if f_mode f = SERIAL_MODE_SOFTWARE \<or> f_mode f = SERIAL_MODE_HARDWARE_AND_SOFTWARE
            then (\<exists>rx tx il. news = [EvNew (f_soft_serial f) rx tx il]) \<and>
                 f_soft_serial f \<notin> set (live w) \<and> live w1 = f_soft_serial f # live w
            else news = [] \<and> live w1 = live w) \<and>
           perform_all dev f ops w1 = Inr ((), w1\<lparr>trace := trace w1 @ es\<rparr>) \<and>
           filter is_alloc es = [] \<and>
           ArdusatSerial_destructor f (w1\<lparr>trace := trace w1 @ es\<rparr>) = Inr ((), w3) \<and>
           trace w3 = trace w1 @ es @
             (if f_mode f = SERIAL_MODE_SOFTWARE \<or> f_mode f = SERIAL_MODE_HARDWARE_AND_SOFTWARE
              then [EvDelete (f_soft_serial f)] else []) \<and>
           live w3 = live w"
proof -
  have "\<exists>f w1. construct 0 c w = Inr (f, w1)"
    by (cases c) (simp_all add: construct_result del: construct.simps)
  then obtain f w1 where made: "construct 0 c w = Inr (f, w1)"
    by blast
  let ?soft = "f_mode f = SERIAL_MODE_SOFTWARE \<or> f_mode f = SERIAL_MODE_HARDWARE_AND_SOFTWARE"
  have hard: "\<not> ?soft \<Longrightarrow> f_soft_serial f = 0 \<and> w1 = w"
    using made by (cases c) (auto simp add: construct_result simp del: construct.simps split: if_splits)
  have soft: "f_soft_serial f = fresh_pointer (live w) \<and>
      (\<exists>rx tx il. w1 = w\<lparr>trace := trace w @ [EvNew (f_soft_serial f) rx tx il],
                         live := f_soft_serial f # live w\<rparr>)" if "?soft"
  proof (cases c)
    case (ModeOnly mode)
    with made that show ?thesis
      by (auto simp add: construct_result simp del: construct.simps)
  next
    case (WithPins mode rx tx il)
    with made that have "f_soft_serial f = fresh_pointer (live w)"
      "w1 = w\<lparr>trace := trace w @ [EvNew (f_soft_serial f) rx tx il],
                live := f_soft_serial f # live w\<rparr>"
      by (auto simp add: construct_result simp del: construct.simps split: if_splits)
    then show ?thesis
      by blast
  qed
  have null: "(f_soft_serial f \<noteq> 0) = ?soft"
  proof (cases ?soft)
    case True
    with soft [OF True] fresh_pointer_not_null [of "live w"] show ?thesis
      by simp
  next
    case False
    with hard [OF False] show ?thesis
      by simp
  qed
  have use: "usable f w1"
  proof (cases ?soft)
    case True
    from soft [OF True] have "f_soft_serial f \<in> set (live w1)"
      by auto
    with True null show ?thesis
      by (simp add: usable_def)
  next
    case False
    then have "f_mode f = SERIAL_MODE_HARDWARE"
      by (cases "f_mode f") simp_all
    then show ?thesis
      by (simp add: usable_def)
  qed
  then have "quiet (live w1) (perform_all dev f ops)"
    by (intro quiet_perform_all) (simp add: usable_def)
  then obtain x es where ran:
    "perform_all dev f ops w1 = Inr (x, w1\<lparr>trace := trace w1 @ es\<rparr>)" "filter is_alloc es = []"
    by (rule quietD) simp
  let ?w2 = "w1\<lparr>trace := trace w1 @ es\<rparr>"
  define news where "news = (if ?soft then drop (length (trace w)) (trace w1) else [])"
  have built: "trace w1 = trace w @ news \<and>
           (if ?soft
            then (\<exists>rx tx il. news = [EvNew (f_soft_serial f) rx tx il]) \<and>
                 f_soft_serial f \<notin> set (live w) \<and> live w1 = f_soft_serial f # live w
            else news = [] \<and> live w1 = live w)"
  proof (cases ?soft)
    case True
    from soft [OF True] obtain rx tx il where
      w1: "w1 = w\<lparr>trace := trace w @ [EvNew (f_soft_serial f) rx tx il],
                    live := f_soft_serial f # live w\<rparr>"
      and p: "f_soft_serial f = fresh_pointer (live w)"
      by blast
    have "f_soft_serial f \<notin> set (live w)"
      using p fresh_pointer_new [of "live w"] by simp
    moreover have tr: "trace w1 = trace w @ [EvNew (f_soft_serial f) rx tx il]"
      by (subst w1) simp
    moreover have "live w1 = f_soft_serial f # live w"
      by (subst w1) simp
    moreover have "news = [EvNew (f_soft_serial f) rx tx il]"
      using True by (simp add: news_def tr)
    ultimately show ?thesis
      using True by auto
  next
    case False
    with hard show ?thesis
      by (simp add: news_def)
  qed
  obtain w3 where w3: "w3 = (if ?soft
      then w\<lparr>trace := trace ?w2 @ [EvDelete (f_soft_serial f)]\<rparr>
      else ?w2)"
    by blast
  have gone: "ArdusatSerial_destructor f ?w2 = Inr ((), w3) \<and>
      trace w3 = trace w1 @ es @ (if ?soft then [EvDelete (f_soft_serial f)] else []) \<and>
      live w3 = live w"
  proof (cases ?soft)
    case True
    with built have fresh: "f_soft_serial f \<notin> set (live w)"
      and l: "live w1 = f_soft_serial f # live w"
      by simp_all
    have more: "world.more w1 = world.more w"
      using soft [OF True] by auto
    have "w1\<lparr>trace := trace w1 @ es @ [EvDelete (f_soft_serial f)], live := live w\<rparr> =
          w\<lparr>trace := trace w1 @ es @ [EvDelete (f_soft_serial f)]\<rparr>"
      using more by simp
    then show ?thesis
      using True null fresh l
      by (simp add: w3 ArdusatSerial_destructor_def delete_SoftwareSerial_def when_io_def add_ev_def)
  next
    case False
    with hard null show ?thesis
      by (simp add: w3 ArdusatSerial_destructor_def when_io_def return_io_def)
  qed
  from made null use built ran gone show ?thesis
    unfolding assms by (intro exI [of _ f] exI [of _ w1] exI [of _ news] exI [of _ es] exI [of _ w3]) simp
qed

text \<open>
  Whatever the member held before, the object a constructor returns is usable: when its
  mode is software or both, the constructor has just allocated its \<^verbatim>\<open>SoftwareSerial\<close>.
\<close>

lemma construct_usable:
  assumes "construct initial c w = Inr (f, w1)"
  shows "usable f w1"
proof (cases c)
  case (ModeOnly mode)
  with assms show ?thesis
    by (auto simp add: ArdusatSerial_mode_def return_io_def usable_def)
next
  case (WithPins mode rx tx il)
  show ?thesis
  proof (cases "mode = SERIAL_MODE_SOFTWARE \<or> mode = SERIAL_MODE_HARDWARE_AND_SOFTWARE")
    case True
    with assms WithPins show ?thesis
      by (auto simp add: ArdusatSerial_pins_def new_SoftwareSerial_def bind_io_def return_io_def
          add_ev_def usable_def fresh_pointer_def Let_def)
  next
    case False
    then have "mode = SERIAL_MODE_HARDWARE"
      by (cases mode) simp_all
    with assms WithPins show ?thesis
      by (auto simp add: ArdusatSerial_pins_def bind_io_def return_io_def usable_def)
  qed
qed

text \<open>
  An object of mode hardware keeps the value its member held before construction, from
  either constructor; when that value is not \<^verbatim>\<open>NULL\<close>, the destructor passes it to
  \<^verbatim>\<open>delete\<close>.
\<close>

lemma destructor_of_unassigned_member:
  assumes "initial \<noteq> 0"
  shows "construct initial (ModeOnly mode) w =
           Inr (\<lparr>f_mode = SERIAL_MODE_HARDWARE, f_soft_serial = initial\<rparr>, w) \<and>
         construct initial (WithPins SERIAL_MODE_HARDWARE rx tx il) w =
           Inr (\<lparr>f_mode = SERIAL_MODE_HARDWARE, f_soft_serial = initial\<rparr>, w) \<and>
         ArdusatSerial_destructor \<lparr>f_mode = SERIAL_MODE_HARDWARE, f_soft_serial = initial\<rparr> w =
           delete_SoftwareSerial initial w"
  using assms
  by (simp add: ArdusatSerial_mode_def ArdusatSerial_pins_def ArdusatSerial_destructor_def
      when_io_def bind_io_def return_io_def)

text \<open>
  Claim C8. The claim fails on the code for an object of mode hardware that is not in
  zeroed storage. Neither constructor assigns \<^verbatim>\<open>_soft_serial\<close> unless it creates a
  \<^verbatim>\<open>SoftwareSerial\<close>, while the destructor takes a member other than \<^verbatim>\<open>NULL\<close> for
  a port to release. Here the member held the address 5 before construction and
  nothing is allocated: both constructors, called with mode hardware, make no
  \<^verbatim>\<open>new\<close> and return an object whose member is still 5, so the member is not
  \<^verbatim>\<open>NULL\<close> although the mode is hardware; and the destructor passes 5 to
  \<^verbatim>\<open>delete\<close>, a pointer that was never allocated.
\<close>

theorem unassigned_member_is_deleted:
  "ArdusatSerial_mode 5 SERIAL_MODE_HARDWARE world0 =
     Inr (\<lparr>f_mode = SERIAL_MODE_HARDWARE, f_soft_serial = 5\<rparr>, world0) \<and>
   ArdusatSerial_pins 5 SERIAL_MODE_HARDWARE 10 11 False world0 =
     Inr (\<lparr>f_mode = SERIAL_MODE_HARDWARE, f_soft_serial = 5\<rparr>, world0) \<and>
   f_soft_serial \<lparr>f_mode = SERIAL_MODE_HARDWARE, f_soft_serial = 5\<rparr> \<noteq> 0 \<and>
   ArdusatSerial_destructor \<lparr>f_mode = SERIAL_MODE_HARDWARE, f_soft_serial = 5\<rparr> world0 =
     Inl InvalidPointer"
  by (simp add: ArdusatSerial_mode_def ArdusatSerial_pins_def ArdusatSerial_destructor_def
      delete_SoftwareSerial_def when_io_def bind_io_def return_io_def world0_def)

end
